theory Spec2Isabelle
  imports Main
begin

section \<open>JavaScript values the module relies on\<close>

text \<open>
  The module under verification is \<^verbatim>\<open>logging.ts\<close>: a leveled logger built on the
  pino library. Objects that the code treats as dictionaries are association lists in
  declaration order. Strings are \<^typ>\<open>string\<close>. A value that may be \<^verbatim>\<open>undefined\<close> is an
  \<^typ>\<open>'a option\<close>. Everything that can throw returns a sum, \<open>Inl\<close> carrying the error.
\<close>

datatype js_error =
  ReferenceError string
  | Thrown string

text \<open>
  Every object literal inherits from \<^verbatim>\<open>Object.prototype\<close>. \<^verbatim>\<open>Object.keys\<close> lists the
  own enumerable keys only; the \<^verbatim>\<open>in\<close> operator also walks the prototype chain, so it
  answers true for the property names of \<^verbatim>\<open>Object.prototype\<close>.
\<close>

definition Object_prototype_keys :: "string list" where
  "Object_prototype_keys =
     [''constructor'', ''hasOwnProperty'', ''isPrototypeOf'', ''propertyIsEnumerable'',
      ''toLocaleString'', ''toString'', ''valueOf'', ''__proto__'',
      ''__defineGetter__'', ''__defineSetter__'', ''__lookupGetter__'', ''__lookupSetter__'']"

definition Object_keys :: "(string \<times> 'v) list \<Rightarrow> string list" where
  "Object_keys obj = map fst obj"

definition js_in :: "string \<Rightarrow> (string \<times> 'v) list \<Rightarrow> bool" where
  "js_in k obj = (k \<in> set (Object_keys obj) \<or> k \<in> set Object_prototype_keys)"

text \<open>Truthiness of a possibly undefined string: undefined and the empty string are falsy.\<close>

definition truthy :: "string option \<Rightarrow> bool" where
  "truthy v = (case v of None \<Rightarrow> False | Some s \<Rightarrow> s \<noteq> [])"

text \<open>\<^verbatim>\<open>a || b\<close> on possibly undefined strings.\<close>

definition js_or :: "string option \<Rightarrow> string option \<Rightarrow> string option" where
  "js_or a b = (if truthy a then a else b)"

definition startsWith :: "string \<Rightarrow> string \<Rightarrow> bool" where
  "startsWith s p = (take (length p) s = p)"

fun str_includes :: "string \<Rightarrow> string \<Rightarrow> bool" where
  "str_includes [] p = (p = [])"
| "str_includes (c # cs) p = (startsWith (c # cs) p \<or> str_includes cs p)"

section \<open>Severity scale\<close>

definition LOG_LEVELS :: "(string \<times> nat) list" where
  "LOG_LEVELS =
     [(''trace'', 10), (''debug'', 20), (''details'', 25), (''log'', 30),
      (''info'', 35), (''warn'', 40), (''error'', 50), (''critical'', 60)]"

definition levelToShort :: "(nat \<times> string) list" where
  "levelToShort =
     [(10, ''TRC''), (20, ''DBG''), (25, ''DTL''), (30, ''LOG''),
      (35, ''INF''), (40, ''WRN''), (50, ''ERR''), (60, ''CRT'')]"

section \<open>Formatters and configurations\<close>

text \<open>
  The level field of what is written: the numeric weight, a display string,
  \<^verbatim>\<open>undefined\<close> (an index that misses its table), or no level field at all.
\<close>

datatype level_field = Numeric nat | Short string | Undefined | No_level_field

text \<open>\<^verbatim>\<open>formatters.level\<close>: the label's short code when the label is an own key of the table.\<close>

definition formatters_level :: "string \<Rightarrow> level_field" where
  "formatters_level label =
     (if label \<in> set (Object_keys LOG_LEVELS)
      then (case map_of LOG_LEVELS label of
              None \<Rightarrow> Undefined
            | Some w \<Rightarrow> (case map_of levelToShort w of None \<Rightarrow> Undefined | Some s \<Rightarrow> Short s))
      else Short ''UNK'')"

text \<open>
  The pino options the module builds. A field that an options object does not set is
  \<open>None\<close> (or \<open>False\<close> for the two formatters that are functions of no interest here:
  \<^verbatim>\<open>formatters.bindings\<close> keeps name, pid and hostname, \<^verbatim>\<open>timestamp\<close> renders the ISO time).
\<close>

record config =
  customLevels :: "(string \<times> nat) list"
  useOnlyCustomLevels :: bool
  has_formatters_bindings :: bool
  level_formatter :: "(string \<Rightarrow> level_field) option"
  has_timestamp :: bool
  level :: "string option"
  browser_asObject :: "bool option"

type_synonym env = "(string \<times> string) list"

definition baseConfig :: config where
  "baseConfig =
     \<lparr>customLevels = LOG_LEVELS, useOnlyCustomLevels = True,
      has_formatters_bindings = True, level_formatter = Some formatters_level,
      has_timestamp = True, level = None, browser_asObject = None\<rparr>"

text \<open>
  \<open>devConfig\<close> and \<open>prodConfig\<close> are module constants: they read \<^verbatim>\<open>process.env.LOG_LEVEL\<close>
  once, when the module is evaluated. \<open>menv\<close> is \<^verbatim>\<open>process.env\<close> at that moment.
\<close>

definition devConfig :: "env \<Rightarrow> config" where
  "devConfig menv =
     baseConfig
       \<lparr>has_formatters_bindings := True, level_formatter := None,
        level :=
          (case map_of menv ''LOG_LEVEL'' of
             None \<Rightarrow> Some ''details''
           | Some v \<Rightarrow> if v \<noteq> [] \<and> js_in v LOG_LEVELS then Some v else Some ''details'')\<rparr>"

definition prodConfig :: "env \<Rightarrow> config" where
  "prodConfig menv =
     baseConfig
       \<lparr>level :=
          (case map_of menv ''LOG_LEVEL'' of
             None \<Rightarrow> Some ''info''
           | Some v \<Rightarrow> if v \<noteq> [] \<and> js_in v LOG_LEVELS then Some v else Some ''info'')\<rparr>"

definition browserConfig :: config where
  "browserConfig =
     \<lparr>customLevels = LOG_LEVELS, useOnlyCustomLevels = True,
      has_formatters_bindings = False, level_formatter = None,
      has_timestamp = False, level = None, browser_asObject = Some False\<rparr>"

section \<open>Ambient runtime signals\<close>

text \<open>
  The globals \<^verbatim>\<open>createLogger\<close> probes when it runs: whether \<^verbatim>\<open>window\<close> and \<^verbatim>\<open>document\<close>
  are defined, \<^verbatim>\<open>navigator.userAgent\<close> when \<^verbatim>\<open>navigator\<close> is defined, and
  \<^verbatim>\<open>process.env\<close> when \<^verbatim>\<open>process\<close> is defined.
\<close>

record ambient =
  window :: bool
  document :: bool
  navigator :: "string option"
  process :: "env option"

definition isRealBrowser :: "ambient \<Rightarrow> bool" where
  "isRealBrowser amb =
     (window amb \<and> document amb
      \<and> (case navigator amb of None \<Rightarrow> False | Some ua \<Rightarrow> \<not> str_includes ua ''Node.js'')
      \<and> process amb = None)"

definition isNextJS :: "ambient \<Rightarrow> bool" where
  "isNextJS amb =
     ((window amb \<and> process amb \<noteq> None)
      \<or> (case process amb of None \<Rightarrow> False | Some e \<Rightarrow> truthy (map_of e ''NEXT_RUNTIME''))
      \<or> (case process amb of
            None \<Rightarrow> False
          | Some e \<Rightarrow> list_ex (\<lambda>key. startsWith key ''NEXT_PUBLIC_'') (Object_keys e)))"

text \<open>
  \<^verbatim>\<open>config\<close> holds a reference to one of the three module constants; the later test
  \<^verbatim>\<open>config === devConfig\<close> compares references.
\<close>

datatype config_ref = The_browserConfig | The_prodConfig | The_devConfig

definition config_of :: "env \<Rightarrow> config_ref \<Rightarrow> config" where
  "config_of menv r =
     (case r of
        The_browserConfig \<Rightarrow> browserConfig
      | The_prodConfig \<Rightarrow> prodConfig menv
      | The_devConfig \<Rightarrow> devConfig menv)"

text \<open>
  The first half of \<^verbatim>\<open>createLogger\<close>: the choice of \<^verbatim>\<open>config\<close>. Reading
  \<^verbatim>\<open>process.env.NODE_ENV\<close> with no \<^verbatim>\<open>process\<close> global throws a ReferenceError.
\<close>

definition createLogger_config :: "ambient \<Rightarrow> js_error + config_ref" where
  "createLogger_config amb =
     (let isRealBrowser = isRealBrowser amb;
          isNextJS = isNextJS amb
      in if isRealBrowser then Inr The_browserConfig
         else (case process amb of
                 None \<Rightarrow> Inl (ReferenceError ''process'')
               | Some e \<Rightarrow>
                   if map_of e ''NODE_ENV'' = Some ''production'' then Inr The_prodConfig
                   else Inr The_devConfig))"

section \<open>The pino logger\<close>

text \<open>
  pino is a library, not part of the module. Its logger is modelled by what the module
  hands it and by its documented contract: a level method writes one record when the
  level's value is at least the value of the logger's \<^verbatim>\<open>level\<close> (\<^verbatim>\<open>info\<close> when the options
  set none); the record's level is what \<^verbatim>\<open>formatters.level\<close> returns, and the number when
  the options carry no such formatter; \<^verbatim>\<open>child\<close> binds the name every record carries.
  Options that set \<^verbatim>\<open>browser.asObject\<close> to false are read by pino's browser build: it builds
  no record object and hands the message and the arguments to \<^verbatim>\<open>console.<method>\<close>, so
  what is written there has no level field.
  The pid, hostname and time of a record come from the runtime and are left out.
\<close>

datatype stream = PrettyLogStream

record pino_logger =
  opts :: config
  destination :: "stream option"
  bindings_name :: "string option"

definition pino :: "config \<Rightarrow> stream option \<Rightarrow> pino_logger" where
  "pino options dest = \<lparr>opts = options, destination = dest, bindings_name = None\<rparr>"

definition child :: "pino_logger \<Rightarrow> string \<Rightarrow> pino_logger" where
  "child lg n = lg\<lparr>bindings_name := Some n\<rparr>"

record 'a log_record =
  rec_name :: "string option"
  rec_label :: string
  rec_level :: level_field
  rec_msg :: string
  rec_args :: "'a list"

record slack_attachment =
  att_text :: string
  color :: string

record slack_message =
  slack_text :: string
  attachments :: "slack_attachment list"

text \<open>
  What a call does to the outside: a record written to the sink, or a payload sent to
  the alert channel at an address.
\<close>

datatype 'a effect = Emitted "'a log_record" | Dispatched string slack_message

definition pino_threshold :: "pino_logger \<Rightarrow> string" where
  "pino_threshold lg = (case level (opts lg) of None \<Rightarrow> ''info'' | Some l \<Rightarrow> l)"

definition pino_isLevelEnabled :: "pino_logger \<Rightarrow> string \<Rightarrow> bool" where
  "pino_isLevelEnabled lg label =
     (case map_of (customLevels (opts lg)) label of
        None \<Rightarrow> False
      | Some v \<Rightarrow>
          (case map_of (customLevels (opts lg)) (pino_threshold lg) of
             None \<Rightarrow> False
           | Some t \<Rightarrow> t \<le> v))"

definition pino_level_field :: "config \<Rightarrow> string \<Rightarrow> level_field" where
  "pino_level_field options label =
     (if browser_asObject options = Some False then No_level_field
      else (case level_formatter options of
              Some f \<Rightarrow> f label
            | None \<Rightarrow> (case map_of (customLevels options) label of
                        None \<Rightarrow> Undefined
                      | Some v \<Rightarrow> Numeric v)))"

definition pino_record :: "pino_logger \<Rightarrow> string \<Rightarrow> string \<Rightarrow> 'a list \<Rightarrow> 'a log_record" where
  "pino_record lg label msg args =
     \<lparr>rec_name = bindings_name lg, rec_label = label,
      rec_level = pino_level_field (opts lg) label, rec_msg = msg, rec_args = args\<rparr>"

definition pino_log ::
  "pino_logger \<Rightarrow> string \<Rightarrow> string \<Rightarrow> 'a list \<Rightarrow> 'a effect list \<Rightarrow> 'a effect list" where
  "pino_log lg label msg args w =
     (if pino_isLevelEnabled lg label then w @ [Emitted (pino_record lg label msg args)] else w)"

section \<open>createLogger\<close>

text \<open>
  \<open>createPrettyLogStream\<close> is imported from \<^verbatim>\<open>./logging-dev\<close>; the outcome of calling it (a
  stream, or the error it throws) is a parameter. The arguments of \<^verbatim>\<open>pino(...)\<close> are
  evaluated before the call, so an error of the collaborator leaves \<^verbatim>\<open>createLogger\<close>
  at once: the function has no handler.
\<close>

definition createLogger ::
  "env \<Rightarrow> ambient \<Rightarrow> js_error + stream \<Rightarrow> string \<Rightarrow> string option \<Rightarrow> js_error + pino_logger" where
  "createLogger menv amb createPrettyLogStream n lvl =
     (case createLogger_config amb of
        Inl e \<Rightarrow> Inl e
      | Inr r \<Rightarrow>
          (let config = config_of menv r in
           if r = The_devConfig \<and> \<not> window amb
           then (case createPrettyLogStream of
                   Inl e \<Rightarrow> Inl e
                 | Inr s \<Rightarrow>
                     Inr (child (pino (config\<lparr>level := js_or lvl (level config)\<rparr>) (Some s)) n))
           else Inr (child (pino (config\<lparr>level := js_or lvl (level config)\<rparr>) None) n)))"

section \<open>The Logger class and its subclass\<close>

datatype cls = Logger_class | ColorLogger_class

datatype severity =
  S_critical | S_error | S_warn | S_log | S_info | S_details | S_debug | S_trace

datatype member = M_constructor | M_extend | M_severity severity

text \<open>
  \<^verbatim>\<open>class Logger\<close> declares a constructor, \<^verbatim>\<open>extend\<close> and the eight severity methods;
  \<^verbatim>\<open>class ColorLogger extends Logger\<close> has an empty body. A member that a class does not
  declare is looked up in its superclass.
\<close>

fun declares :: "cls \<Rightarrow> member \<Rightarrow> bool" where
  "declares Logger_class m = True"
| "declares ColorLogger_class m = False"

fun depth :: "cls \<Rightarrow> nat" where
  "depth Logger_class = 0"
| "depth ColorLogger_class = 1"

function resolve :: "cls \<Rightarrow> member \<Rightarrow> cls option" where
  "resolve Logger_class m = (if declares Logger_class m then Some Logger_class else None)"
| "resolve ColorLogger_class m =
     (if declares ColorLogger_class m then Some ColorLogger_class else resolve Logger_class m)"
  by pat_completeness auto
termination
  by (relation "measure (\<lambda>(c, m). depth c)") auto

record logger_obj =
  proto :: cls
  name :: string
  isBrowser :: bool
  logger :: pino_logger

text \<open>The static field \<^verbatim>\<open>Logger.slackWebhookUrl\<close>, read once from \<^verbatim>\<open>process.env\<close>.\<close>

definition slackWebhookUrl :: "env \<Rightarrow> string option" where
  "slackWebhookUrl menv = js_or (map_of menv ''SLACK_WEBHOOK_URL'') None"

text \<open>The body of Logger's constructor, run on a fresh object of class \<open>c\<close>.\<close>

definition Logger_constructor ::
  "cls \<Rightarrow> env \<Rightarrow> ambient \<Rightarrow> js_error + stream \<Rightarrow> string \<Rightarrow> js_error + logger_obj" where
  "Logger_constructor c menv amb createPrettyLogStream n =
     (case createLogger menv amb createPrettyLogStream n None of
        Inl e \<Rightarrow> Inl e
      | Inr lg \<Rightarrow> Inr \<lparr>proto = c, name = n, isBrowser = window amb, logger = lg\<rparr>)"

text \<open>\<^verbatim>\<open>new C(n)\<close>: the constructor that \<open>C\<close> declares or inherits.\<close>

definition new ::
  "cls \<Rightarrow> env \<Rightarrow> ambient \<Rightarrow> js_error + stream \<Rightarrow> string \<Rightarrow> js_error + logger_obj" where
  "new c menv amb createPrettyLogStream n =
     (case resolve c M_constructor of
        Some Logger_class \<Rightarrow> Logger_constructor c menv amb createPrettyLogStream n
      | _ \<Rightarrow> Inl (Thrown ''TypeError: not a constructor''))"

definition Logger_extend ::
  "env \<Rightarrow> ambient \<Rightarrow> js_error + stream \<Rightarrow> logger_obj \<Rightarrow> string \<Rightarrow> js_error + logger_obj" where
  "Logger_extend menv amb createPrettyLogStream this subname =
     new Logger_class menv amb createPrettyLogStream (name this @ ''.'' @ subname)"

text \<open>
  The object literal that \<^verbatim>\<open>critical\<close> builds. \<open>stringify\<close> stands for
  \<^verbatim>\<open>JSON.stringify(args, null, 2)\<close>, which returns the text or throws a TypeError (on a
  BigInt or a circular structure); it is called only when the arguments are not empty.
  \<^verbatim>\<open>args\<close> is a rest parameter, a dense array, so \<^verbatim>\<open>Object.keys(args).length\<close> is its
  length.
\<close>

definition critical_slackMessage ::
  "('a list \<Rightarrow> js_error + string) \<Rightarrow> logger_obj \<Rightarrow> string \<Rightarrow> 'a list
     \<Rightarrow> js_error + slack_message" where
  "critical_slackMessage stringify this message args =
     (if length args > 0
      then (case stringify args of
              Inl e \<Rightarrow> Inl e
            | Inr json \<Rightarrow>
                Inr \<lparr>slack_text = ''['' @ name this @ ''] CRITICAL: '' @ message,
                     attachments =
                       [\<lparr>att_text = ''```'' @ json @ ''```'', color = ''danger''\<rparr>]\<rparr>)
      else Inr \<lparr>slack_text = ''['' @ name this @ ''] CRITICAL: '' @ message,
                attachments =
                  [\<lparr>att_text = ''No additional context'', color = ''danger''\<rparr>]\<rparr>)"

text \<open>
  The outcome of a method that returns nothing: the error it threw, if any, and what has
  been written and sent by then.

  \<^verbatim>\<open>critical\<close>: the record goes to pino; then, when the webhook address is truthy, the
  payload is built and bound to a local constant, and the method returns. An error of
  \<^verbatim>\<open>JSON.stringify\<close> leaves the method, after the record was written.
\<close>

definition Logger_critical ::
  "('a list \<Rightarrow> js_error + string) \<Rightarrow> env \<Rightarrow> logger_obj \<Rightarrow> string \<Rightarrow> 'a list
     \<Rightarrow> 'a effect list \<Rightarrow> js_error option \<times> 'a effect list" where
  "Logger_critical stringify menv this message args w =
     (let w' = pino_log (logger this) ''critical'' message args w
      in if truthy (slackWebhookUrl menv)
         then (case critical_slackMessage stringify this message args of
                 Inl e \<Rightarrow> (Some e, w')
               | Inr slackMessage \<Rightarrow> (None, w'))
         else (None, w'))"

definition Logger_error :: "logger_obj \<Rightarrow> string \<Rightarrow> 'a list \<Rightarrow> 'a effect list \<Rightarrow> 'a effect list" where
  "Logger_error this message args w = pino_log (logger this) ''error'' message args w"

definition Logger_warn :: "logger_obj \<Rightarrow> string \<Rightarrow> 'a list \<Rightarrow> 'a effect list \<Rightarrow> 'a effect list" where
  "Logger_warn this message args w = pino_log (logger this) ''warn'' message args w"

definition Logger_log :: "logger_obj \<Rightarrow> string \<Rightarrow> 'a list \<Rightarrow> 'a effect list \<Rightarrow> 'a effect list" where
  "Logger_log this message args w = pino_log (logger this) ''log'' message args w"

definition Logger_info :: "logger_obj \<Rightarrow> string \<Rightarrow> 'a list \<Rightarrow> 'a effect list \<Rightarrow> 'a effect list" where
  "Logger_info this message args w = pino_log (logger this) ''info'' message args w"

definition Logger_details :: "logger_obj \<Rightarrow> string \<Rightarrow> 'a list \<Rightarrow> 'a effect list \<Rightarrow> 'a effect list" where
  "Logger_details this message args w = pino_log (logger this) ''details'' message args w"

definition Logger_debug :: "logger_obj \<Rightarrow> string \<Rightarrow> 'a list \<Rightarrow> 'a effect list \<Rightarrow> 'a effect list" where
  "Logger_debug this message args w = pino_log (logger this) ''debug'' message args w"

definition Logger_trace :: "logger_obj \<Rightarrow> string \<Rightarrow> 'a list \<Rightarrow> 'a effect list \<Rightarrow> 'a effect list" where
  "Logger_trace this message args w = pino_log (logger this) ''trace'' message args w"

text \<open>A method call on an object: the body comes from the class that declares the member.\<close>

definition call_severity ::
  "('a list \<Rightarrow> js_error + string) \<Rightarrow> env \<Rightarrow> logger_obj \<Rightarrow> severity \<Rightarrow> string \<Rightarrow> 'a list
     \<Rightarrow> 'a effect list \<Rightarrow> js_error option \<times> 'a effect list" where
  "call_severity stringify menv ob s message args w =
     (case resolve (proto ob) (M_severity s) of
        Some Logger_class \<Rightarrow>
          (case s of
             S_critical \<Rightarrow> Logger_critical stringify menv ob message args w
           | S_error \<Rightarrow> (None, Logger_error ob message args w)
           | S_warn \<Rightarrow> (None, Logger_warn ob message args w)
           | S_log \<Rightarrow> (None, Logger_log ob message args w)
           | S_info \<Rightarrow> (None, Logger_info ob message args w)
           | S_details \<Rightarrow> (None, Logger_details ob message args w)
           | S_debug \<Rightarrow> (None, Logger_debug ob message args w)
           | S_trace \<Rightarrow> (None, Logger_trace ob message args w))
      | _ \<Rightarrow> (Some (Thrown ''TypeError: not a function''), w))"

definition call_extend ::
  "env \<Rightarrow> ambient \<Rightarrow> js_error + stream \<Rightarrow> logger_obj \<Rightarrow> string \<Rightarrow> js_error + logger_obj" where
  "call_extend menv amb createPrettyLogStream ob subname =
     (case resolve (proto ob) M_extend of
        Some Logger_class \<Rightarrow> Logger_extend menv amb createPrettyLogStream ob subname
      | _ \<Rightarrow> Inl (Thrown ''TypeError: not a function''))"

section \<open>Evaluating the module\<close>

text \<open>
  The statements at the end of the module, run when it is imported: the default instance
  and nine calls. The module constants above them read \<^verbatim>\<open>process.env\<close>, so the module
  does not load without a \<^verbatim>\<open>process\<close> global. The result pairs what was written so far
  with the instance, or with the error that stopped the evaluation.
\<close>

definition module_load ::
  "('a list \<Rightarrow> js_error + string) \<Rightarrow> ambient \<Rightarrow> js_error + stream
     \<Rightarrow> (js_error + logger_obj) \<times> 'a effect list" where
  "module_load stringify amb createPrettyLogStream =
     (case process amb of
        None \<Rightarrow> (Inl (ReferenceError ''process''), [])
      | Some menv \<Rightarrow>
          (case new Logger_class menv amb createPrettyLogStream ''app'' of
             Inl e \<Rightarrow> (Inl e, [])
           | Inr lg \<Rightarrow>
               (case Logger_critical stringify menv lg ''This is a critical log message'' [] [] of
                  (Some e, w1) \<Rightarrow> (Inl e, w1)
                | (None, w1) \<Rightarrow>
                    (let w2 = Logger_error lg ''This is an error log message'' [] w1;
                         w3 = Logger_warn lg ''This is a warning log message'' [] w2;
                         w4 = Logger_log lg ''This is a log message'' [] w3;
                         w5 = Logger_info lg ''This is an info log message'' [] w4;
                         w6 = Logger_details lg ''This is a details log message'' [] w5;
                         w7 = Logger_debug lg ''This is a debug log message'' [] w6;
                         w8 = Logger_trace lg ''This is a trace log message'' [] w7
                     in (case Logger_extend menv amb createPrettyLogStream lg ''submodule'' of
                           Inl e \<Rightarrow> (Inl e, w8)
                         | Inr sub \<Rightarrow>
                             (Inr lg,
                              Logger_info sub ''This is an info message from a submodule'' []
                                w8))))))"

section \<open>Vocabulary of the properties\<close>


text \<open>
  The decision policy as the specification words it: browser first, then production,
  otherwise development. To be compared with \<open>createLogger_config\<close>.
\<close>

definition spec_resolve :: "bool \<Rightarrow> bool \<Rightarrow> config_ref" where
  "spec_resolve browser production =
     (if browser then The_browserConfig
      else if production then The_prodConfig
      else The_devConfig)"

text \<open>\<^verbatim>\<open>NODE_ENV\<close> as the running process shows it, and the production-mode signal.\<close>

definition node_env :: "ambient \<Rightarrow> string option" where
  "node_env amb = (case process amb of None \<Rightarrow> None | Some e \<Rightarrow> map_of e ''NODE_ENV'')"

definition production_signal :: "ambient \<Rightarrow> bool" where
  "production_signal amb =
     (case process amb of None \<Rightarrow> False | Some e \<Rightarrow> map_of e ''NODE_ENV'' = Some ''production'')"

text \<open>The payloads sent to the alert channel, and the records written, in order.\<close>

fun dispatches :: "'a effect list \<Rightarrow> (string \<times> slack_message) list" where
  "dispatches [] = []"
| "dispatches (Emitted r # w) = dispatches w"
| "dispatches (Dispatched url p # w) = (url, p) # dispatches w"

fun emitted :: "'a effect list \<Rightarrow> 'a log_record list" where
  "emitted [] = []"
| "emitted (Emitted r # w) = r # emitted w"
| "emitted (Dispatched url p # w) = emitted w"

text \<open>The eight calls on the default instance at the end of the module: method and message.\<close>

definition module_calls :: "(string \<times> string) list" where
  "module_calls =
     [(''critical'', ''This is a critical log message''),
      (''error'', ''This is an error log message''),
      (''warn'', ''This is a warning log message''),
      (''log'', ''This is a log message''),
      (''info'', ''This is an info log message''),
      (''details'', ''This is a details log message''),
      (''debug'', ''This is a debug log message''),
      (''trace'', ''This is a trace log message'')]"

text \<open>
  The Logger that a successful construction yields: name \<open>n\<close>, the options of the
  chosen configuration unchanged, destination \<open>d\<close> (\<open>None\<close> is pino's default sink,
  the structured line stream).
\<close>

definition built :: "env \<Rightarrow> config_ref \<Rightarrow> stream option \<Rightarrow> bool \<Rightarrow> string \<Rightarrow> logger_obj" where
  "built menv r d w n =
     \<lparr>proto = Logger_class, name = n, isBrowser = w,
      logger = \<lparr>opts = config_of menv r, destination = d, bindings_name = Some n\<rparr>\<rparr>"

section \<open>Facts about the model\<close>

lemma dispatches_append: "dispatches (w @ v) = dispatches w @ dispatches v"
  by (induction w rule: dispatches.induct) simp_all

lemma dispatches_pino_log: "dispatches (pino_log lg label msg args w) = dispatches w"
  by (simp add: pino_log_def dispatches_append)


lemma config_level_id: "(c::config)\<lparr>level := js_or None (level c)\<rparr> = c"
  by (simp add: js_or_def truthy_def)

lemma new_Logger:
  "new Logger_class menv amb cpls n =
     (case createLogger_config amb of
        Inl e \<Rightarrow> Inl e
      | Inr r \<Rightarrow>
          if r = The_devConfig \<and> \<not> window amb
          then (case cpls of Inl e \<Rightarrow> Inl e | Inr s \<Rightarrow> Inr (built menv r (Some s) (window amb) n))
          else Inr (built menv r None (window amb) n))"
  by (simp add: new_def Logger_constructor_def createLogger_def built_def pino_def child_def
      config_level_id Let_def split: sum.splits)

lemma new_name:
  "new c menv amb cpls n = Inr ob \<Longrightarrow> name ob = n \<and> bindings_name (logger ob) = Some n"
  by (cases c)
    (auto simp: new_def Logger_constructor_def createLogger_def pino_def child_def Let_def
      split: sum.splits if_splits)

text \<open>
  Whether a construction succeeds does not depend on the name or on the class: where one
  Logger could be built, any other can.
\<close>

lemma new_total:
  "new c menv amb cpls n = Inr ob \<Longrightarrow> \<exists>ob'. new Logger_class menv amb cpls n' = Inr ob'"
  by (cases c)
    (auto simp: new_def Logger_constructor_def createLogger_def Let_def
      split: sum.splits if_splits)


text \<open>A record written by a created logger has the level its configuration gives it.\<close>

lemma created_logger_level:
  "createLogger_config amb = Inr r \<Longrightarrow> createLogger menv amb cpls n lvl = Inr lg \<Longrightarrow>
   rec_level (pino_record lg label msg args) = pino_level_field (config_of menv r) label"
  by (auto simp: createLogger_def pino_record_def pino_def child_def pino_level_field_def
      Let_def split: sum.splits if_splits option.splits)

text \<open>With no arguments \<^verbatim>\<open>JSON.stringify\<close> is not called, so \<^verbatim>\<open>critical\<close> returns.\<close>

lemma Logger_critical_effects:
  "Logger_critical st menv this m [] w = (None, pino_log (logger this) ''critical'' m [] w)"
  by (simp add: Logger_critical_def critical_slackMessage_def Let_def)

text \<open>Whatever its outcome, \<^verbatim>\<open>critical\<close> sends nothing; nor does any other method.\<close>

lemma Logger_critical_dispatches:
  "dispatches (snd (Logger_critical st menv this m a w)) = dispatches w"
  by (simp add: Logger_critical_def dispatches_pino_log Let_def split: sum.splits)

lemma call_severity_dispatches:
  "dispatches (snd (call_severity st menv ob s m a w)) = dispatches w"
  by (cases "proto ob"; cases s)
    (simp_all add: call_severity_def Logger_critical_dispatches dispatches_pino_log
      Logger_error_def Logger_warn_def Logger_log_def Logger_info_def Logger_details_def
      Logger_debug_def Logger_trace_def)

text \<open>
  \<^verbatim>\<open>critical\<close> throws exactly when the webhook address is set, the arguments are not
  empty and \<^verbatim>\<open>JSON.stringify\<close> throws; the record has been written by then.
\<close>

lemma Logger_critical_outcome:
  "Logger_critical st menv this m a w =
     ((if truthy (slackWebhookUrl menv) \<and> a \<noteq> []
       then (case st a of Inl e \<Rightarrow> Some e | Inr json \<Rightarrow> None)
       else None),
      pino_log (logger this) ''critical'' m a w)"
  by (simp add: Logger_critical_def critical_slackMessage_def Let_def split: sum.splits)

lemma pino_log_calls:
  "foldl (\<lambda>w (l, m). pino_log lg l m [] w) w calls =
     w @ map Emitted (map (\<lambda>(l, m). pino_record lg l m [])
           (filter (\<lambda>(l, m). pino_isLevelEnabled lg l) calls))"
  by (induction calls arbitrary: w) (auto simp: pino_log_def)

lemma module_load_foldl:
  "process amb = Some menv \<Longrightarrow> new Logger_class menv amb cpls ''app'' = Inr lg \<Longrightarrow>
   Logger_extend menv amb cpls lg ''submodule'' = Inr sub \<Longrightarrow>
   module_load st amb cpls =
     (Inr lg,
      pino_log (logger sub) ''info'' ''This is an info message from a submodule'' []
        (foldl (\<lambda>w (l, m). pino_log (logger lg) l m [] w) [] module_calls))"
  by (simp add: module_load_def module_calls_def Logger_critical_effects Logger_error_def
      Logger_warn_def Logger_log_def Logger_info_def Logger_details_def Logger_debug_def
      Logger_trace_def Let_def)

text \<open>
  The threshold that the two server configurations take from \<^verbatim>\<open>LOG_LEVEL\<close>: the value
  itself when it is a level name or a property name of \<^verbatim>\<open>Object.prototype\<close>, the default
  otherwise.
\<close>

lemma LOG_LEVEL_threshold:
  "level (devConfig menv) =
     (case map_of menv ''LOG_LEVEL'' of
        None \<Rightarrow> Some ''details''
      | Some v \<Rightarrow>
          if v \<in> set (map fst LOG_LEVELS) \<or> v \<in> set Object_prototype_keys then Some v
          else Some ''details'')"
  "level (prodConfig menv) =
     (case map_of menv ''LOG_LEVEL'' of
        None \<Rightarrow> Some ''info''
      | Some v \<Rightarrow>
          if v \<in> set (map fst LOG_LEVELS) \<or> v \<in> set Object_prototype_keys then Some v
          else Some ''info'')"
  by (auto simp: devConfig_def prodConfig_def baseConfig_def js_in_def Object_keys_def
      Object_prototype_keys_def LOG_LEVELS_def split: option.splits)

section \<open>The alert payload of critical\<close>

text \<open>
  C1. With a webhook address configured, \<^verbatim>\<open>critical("boom", 1)\<close> on the production
  logger \<open>app\<close> writes its record and returns, and nothing is sent to the alert channel:
  not one dispatch is attempted. The payload that the call builds and drops has the
  title \<open>[app] CRITICAL: boom\<close> and, as detail, the pretty-printed JSON of the arguments
  between two triple-backtick fences.
\<close>

theorem critical_never_dispatches:
  "truthy (slackWebhookUrl
     [(''NODE_ENV'', ''production''),
      (''SLACK_WEBHOOK_URL'', ''https://hooks.slack.com/services/T0/B0/k'')])
   \<and> new Logger_class
        [(''NODE_ENV'', ''production''),
         (''SLACK_WEBHOOK_URL'', ''https://hooks.slack.com/services/T0/B0/k'')]
        \<lparr>window = False, document = False, navigator = None,
         process = Some [(''NODE_ENV'', ''production''),
           (''SLACK_WEBHOOK_URL'', ''https://hooks.slack.com/services/T0/B0/k'')]\<rparr>
        (Inr PrettyLogStream) ''app''
      = Inr (built
          [(''NODE_ENV'', ''production''),
           (''SLACK_WEBHOOK_URL'', ''https://hooks.slack.com/services/T0/B0/k'')]
          The_prodConfig None False ''app'')
   \<and> Logger_critical (\<lambda>a. Inr ''[\<newline>  1\<newline>]'')
        [(''NODE_ENV'', ''production''),
         (''SLACK_WEBHOOK_URL'', ''https://hooks.slack.com/services/T0/B0/k'')]
        (built
          [(''NODE_ENV'', ''production''),
           (''SLACK_WEBHOOK_URL'', ''https://hooks.slack.com/services/T0/B0/k'')]
          The_prodConfig None False ''app'')
        ''boom'' [1::nat] []
      = (None,
         [Emitted \<lparr>rec_name = Some ''app'', rec_label = ''critical'', rec_level = Short ''CRT'',
            rec_msg = ''boom'', rec_args = [1]\<rparr>])
   \<and> dispatches
        (snd (Logger_critical (\<lambda>a. Inr ''[\<newline>  1\<newline>]'')
          [(''NODE_ENV'', ''production''),
           (''SLACK_WEBHOOK_URL'', ''https://hooks.slack.com/services/T0/B0/k'')]
          (built
            [(''NODE_ENV'', ''production''),
             (''SLACK_WEBHOOK_URL'', ''https://hooks.slack.com/services/T0/B0/k'')]
            The_prodConfig None False ''app'')
          ''boom'' [1::nat] [])) = []
   \<and> critical_slackMessage (\<lambda>a. Inr ''[\<newline>  1\<newline>]'')
        (built
          [(''NODE_ENV'', ''production''),
           (''SLACK_WEBHOOK_URL'', ''https://hooks.slack.com/services/T0/B0/k'')]
          The_prodConfig None False ''app'')
        ''boom'' [1::nat]
      = Inr \<lparr>slack_text = ''[app] CRITICAL: boom'',
             attachments =
               [\<lparr>att_text = ''```[\<newline>  1\<newline>]```'', color = ''danger''\<rparr>]\<rparr>"
  by (simp add: slackWebhookUrl_def js_or_def truthy_def Logger_critical_def
      critical_slackMessage_def new_Logger createLogger_config_def isRealBrowser_def
      built_def pino_log_def pino_isLevelEnabled_def pino_threshold_def pino_record_def
      pino_level_field_def config_of_def prodConfig_def baseConfig_def formatters_level_def
      Object_keys_def LOG_LEVELS_def levelToShort_def)

section \<open>The level field of a record\<close>



section \<open>Failure of the pretty-print collaborator\<close>

text \<open>
  C3. Where \<^verbatim>\<open>createLogger\<close> selects a configuration, constructing a Logger (by
  \<^verbatim>\<open>new Logger\<close> or by \<^verbatim>\<open>extend\<close>) calls the pretty-print collaborator only when the
  development configuration is selected and no \<^verbatim>\<open>window\<close> global exists. There the
  collaborator's error is the construction's error: nothing catches it and no other sink
  is tried. On every other path the collaborator is not called and the construction
  returns a Logger on pino's default sink.
\<close>

theorem construction_outcome:
  assumes "createLogger_config amb = Inr r"
  shows "new Logger_class menv amb cpls n =
           (if r = The_devConfig \<and> \<not> window amb
            then (case cpls of
                    Inl e \<Rightarrow> Inl e
                  | Inr s \<Rightarrow> Inr (built menv r (Some s) (window amb) n))
            else Inr (built menv r None (window amb) n))
         \<and> Logger_extend menv amb cpls this sub =
           (if r = The_devConfig \<and> \<not> window amb
            then (case cpls of
                    Inl e \<Rightarrow> Inl e
                  | Inr s \<Rightarrow> Inr (built menv r (Some s) (window amb) (name this @ ''.'' @ sub)))
            else Inr (built menv r None (window amb) (name this @ ''.'' @ sub)))"
  using assms by (simp add: new_Logger Logger_extend_def split: sum.splits)

theorem construction_outcome_witness:
  "createLogger_config \<lparr>window = False, document = False, navigator = None,
       process = Some [(''NODE_ENV'', ''production'')]\<rparr> = Inr The_prodConfig
   \<and> new Logger_class [(''NODE_ENV'', ''production'')]
       \<lparr>window = False, document = False, navigator = None,
        process = Some [(''NODE_ENV'', ''production'')]\<rparr>
       (Inl (Thrown ''pino-pretty is not installed'')) ''app''
     = Inr (built [(''NODE_ENV'', ''production'')] The_prodConfig None False ''app'')"
  using construction_outcome
    [of "\<lparr>window = False, document = False, navigator = None,
        process = Some [(''NODE_ENV'', ''production'')]\<rparr>" The_prodConfig
      "[(''NODE_ENV'', ''production'')]" "Inl (Thrown ''pino-pretty is not installed'')" "''app''"]
  by (simp add: createLogger_config_def isRealBrowser_def)

text \<open>
  On a development server (a \<^verbatim>\<open>process\<close> global, no \<^verbatim>\<open>window\<close>, \<^verbatim>\<open>NODE_ENV\<close> unset) whose
  pretty-print collaborator throws, \<^verbatim>\<open>new Logger("app")\<close> throws the same error.
\<close>

theorem pretty_stream_failure_propagates:
  "createLogger_config \<lparr>window = False, document = False, navigator = None, process = Some []\<rparr>
     = Inr The_devConfig
   \<and> new Logger_class [] \<lparr>window = False, document = False, navigator = None, process = Some []\<rparr>
       (Inl (Thrown ''pino-pretty is not installed'')) ''app''
     = Inl (Thrown ''pino-pretty is not installed'')"
  by (simp add: new_Logger createLogger_config_def isRealBrowser_def)

section \<open>Selection of the configuration\<close>

text \<open>
  C4. For every combination of ambient signals the browser test comes first: when it
  succeeds the browser configuration is selected. When it fails and a \<^verbatim>\<open>process\<close> global
  is present, the production configuration is selected if \<^verbatim>\<open>NODE_ENV\<close> is \<open>production\<close>
  and the development configuration otherwise. When it fails and no \<^verbatim>\<open>process\<close> global
  is present, reading the production signal throws a ReferenceError and nothing is
  selected.
\<close>

theorem createLogger_config_precedence:
  "createLogger_config amb =
     (if \<not> isRealBrowser amb \<and> process amb = None then Inl (ReferenceError ''process'')
      else Inr (spec_resolve (isRealBrowser amb) (production_signal amb)))"
  by (simp add: createLogger_config_def spec_resolve_def production_signal_def Let_def
      split: option.splits)

text \<open>
  With neither a \<^verbatim>\<open>window\<close> nor a \<^verbatim>\<open>process\<close> global the browser test fails, no production
  signal is set, and yet the development configuration is not selected.
\<close>

theorem createLogger_config_no_process:
  "\<not> isRealBrowser \<lparr>window = False, document = False, navigator = None, process = None\<rparr>
   \<and> \<not> production_signal \<lparr>window = False, document = False, navigator = None, process = None\<rparr>
   \<and> createLogger_config \<lparr>window = False, document = False, navigator = None, process = None\<rparr>
       = Inl (ReferenceError ''process'')
   \<and> createLogger_config \<lparr>window = False, document = False, navigator = None, process = None\<rparr>
       \<noteq> Inr The_devConfig"
  by (simp add: createLogger_config_def isRealBrowser_def production_signal_def)

section \<open>The threshold taken from the environment\<close>

text \<open>
  C5. \<^verbatim>\<open>LOG_LEVEL=constructor\<close> is none of the eight level names, yet both server
  configurations take it as their threshold: the test \<^verbatim>\<open>LOG_LEVEL in LOG_LEVELS\<close> also
  accepts the property names that the table inherits from \<^verbatim>\<open>Object.prototype\<close>.
\<close>

theorem LOG_LEVEL_prototype_key:
  "level (devConfig [(''LOG_LEVEL'', ''constructor'')]) = Some ''constructor''
   \<and> level (prodConfig [(''LOG_LEVEL'', ''constructor'')]) = Some ''constructor''
   \<and> ''constructor'' \<notin> set (map fst LOG_LEVELS)"
  by (simp add: devConfig_def prodConfig_def baseConfig_def js_in_def Object_prototype_keys_def
      LOG_LEVELS_def)

section \<open>The severity table\<close>

text \<open>
  C6. In declared order (trace, debug, details, log, info, warn, error, critical) the
  weights of the severity table are 10, 20, 25, 30, 35, 40, 50, 60; the sequence is
  strictly increasing and no two levels share a weight.
\<close>

theorem LOG_LEVELS_weights:
  "map fst LOG_LEVELS =
     [''trace'', ''debug'', ''details'', ''log'', ''info'', ''warn'', ''error'', ''critical'']
   \<and> map snd LOG_LEVELS = [10, 20, 25, 30, 35, 40, 50, 60]
   \<and> sorted_wrt (<) (map snd LOG_LEVELS)
   \<and> distinct (map snd LOG_LEVELS)"
  by (simp add: LOG_LEVELS_def)

section \<open>Hierarchical names\<close>



section \<open>The framework detection\<close>

text \<open>
  C8. Two environments that agree on the \<^verbatim>\<open>window\<close>, \<^verbatim>\<open>document\<close> and \<^verbatim>\<open>navigator\<close>
  globals, on the presence of a \<^verbatim>\<open>process\<close> global and on \<^verbatim>\<open>NODE_ENV\<close> select the same
  configuration, whatever framework markers (\<^verbatim>\<open>NEXT_RUNTIME\<close>, \<^verbatim>\<open>NEXT_PUBLIC_*\<close>) either
  of them carries: the framework detection decides nothing.
\<close>

theorem framework_detection_no_influence:
  assumes "window a = window b" and "document a = document b"
    and "navigator a = navigator b"
    and "(process a = None) = (process b = None)"
    and "node_env a = node_env b"
  shows "createLogger_config a = createLogger_config b"
  using assms
  by (auto simp: createLogger_config_def isRealBrowser_def node_env_def Let_def
      split: option.splits)

theorem framework_detection_no_influence_witness:
  "isNextJS \<lparr>window = False, document = False, navigator = None,
       process = Some [(''NEXT_RUNTIME'', ''nodejs''), (''NODE_ENV'', ''production'')]\<rparr>
   \<and> \<not> isNextJS \<lparr>window = False, document = False, navigator = None,
       process = Some [(''NODE_ENV'', ''production'')]\<rparr>
   \<and> createLogger_config \<lparr>window = False, document = False, navigator = None,
       process = Some [(''NEXT_RUNTIME'', ''nodejs''), (''NODE_ENV'', ''production'')]\<rparr>
     = createLogger_config \<lparr>window = False, document = False, navigator = None,
       process = Some [(''NODE_ENV'', ''production'')]\<rparr>"
  using framework_detection_no_influence
    [of "\<lparr>window = False, document = False, navigator = None,
       process = Some [(''NEXT_RUNTIME'', ''nodejs''), (''NODE_ENV'', ''production'')]\<rparr>"
      "\<lparr>window = False, document = False, navigator = None,
       process = Some [(''NODE_ENV'', ''production'')]\<rparr>"]
  by (simp add: isNextJS_def node_env_def truthy_def Object_keys_def startsWith_def)

section \<open>The subclass\<close>

text \<open>
  C9. A ColorLogger behaves as a Logger. Constructing one runs Logger's constructor and
  yields the same object but for its class; each of the eight severity methods and
  \<^verbatim>\<open>extend\<close>, called on an object of class ColorLogger, does what it does on the same
  object of class Logger.
\<close>

theorem ColorLogger_behaves_as_Logger:
  "new ColorLogger_class menv amb cpls n =
     map_sum id (\<lambda>ob. ob\<lparr>proto := ColorLogger_class\<rparr>) (new Logger_class menv amb cpls n)
   \<and> call_severity st menv (ob\<lparr>proto := ColorLogger_class\<rparr>) s msg args w =
       call_severity st menv (ob\<lparr>proto := Logger_class\<rparr>) s msg args w
   \<and> call_extend menv amb cpls (ob\<lparr>proto := ColorLogger_class\<rparr>) sub =
       call_extend menv amb cpls (ob\<lparr>proto := Logger_class\<rparr>) sub"
proof (intro conjI)
  show "new ColorLogger_class menv amb cpls n =
     map_sum id (\<lambda>ob. ob\<lparr>proto := ColorLogger_class\<rparr>) (new Logger_class menv amb cpls n)"
    by (simp add: new_def Logger_constructor_def split: sum.splits)
  show "call_severity st menv (ob\<lparr>proto := ColorLogger_class\<rparr>) s msg args w =
       call_severity st menv (ob\<lparr>proto := Logger_class\<rparr>) s msg args w"
    by (cases s)
      (simp_all add: call_severity_def Logger_critical_outcome Logger_error_def Logger_warn_def Logger_log_def Logger_info_def Logger_details_def
        Logger_debug_def Logger_trace_def)
  show "call_extend menv amb cpls (ob\<lparr>proto := ColorLogger_class\<rparr>) sub =
       call_extend menv amb cpls (ob\<lparr>proto := Logger_class\<rparr>) sub"
    by (simp add: call_extend_def Logger_extend_def)
qed

section \<open>What importing the module does\<close>

text \<open>
  C10. When the module is imported in an environment where the default Logger \<open>app\<close>
  can be built, each of the eight severity methods is called on it once, in the order
  critical, error, warn, log, info, details, debug, trace, and then \<open>info\<close> once on the
  extended logger \<open>app.submodule\<close>. Each call writes one record exactly when its level is
  enabled under the active threshold, so what is written is the enabled calls' records,
  in that order.
\<close>

theorem module_load_effects:
  assumes "process amb = Some menv" and "new Logger_class menv amb cpls ''app'' = Inr lg"
  shows "\<exists>sub.
           Logger_extend menv amb cpls lg ''submodule'' = Inr sub
           \<and> name sub = ''app.submodule''
           \<and> module_load st amb cpls =
               (Inr lg,
                map Emitted
                  (map (\<lambda>(l, m). pino_record (logger lg) l m [])
                     (filter (\<lambda>(l, m). pino_isLevelEnabled (logger lg) l) module_calls)
                   @ (if pino_isLevelEnabled (logger sub) ''info''
                      then [pino_record (logger sub) ''info''
                              ''This is an info message from a submodule'' []]
                      else [])))"
proof -
  have lg: "name lg = ''app''"
    using new_name [OF assms(2)] by simp
  obtain sub where sub: "new Logger_class menv amb cpls ''app.submodule'' = Inr sub"
    using new_total [OF assms(2)] by blast
  have ext: "Logger_extend menv amb cpls lg ''submodule'' = Inr sub"
    using sub by (simp add: Logger_extend_def lg)
  have nm: "name sub = ''app.submodule''"
    using new_name [OF sub] by simp
  have "module_load st amb cpls =
      (Inr lg,
       map Emitted
         (map (\<lambda>(l, m). pino_record (logger lg) l m [])
            (filter (\<lambda>(l, m). pino_isLevelEnabled (logger lg) l) module_calls)
          @ (if pino_isLevelEnabled (logger sub) ''info''
             then [pino_record (logger sub) ''info''
                     ''This is an info message from a submodule'' []]
             else [])))"
    unfolding module_load_foldl [OF assms ext] pino_log_calls
    by (simp add: pino_log_def)
  with ext nm show ?thesis by blast
qed

text \<open>With \<^verbatim>\<open>LOG_LEVEL=trace\<close> on a development server all nine records are written.\<close>

theorem module_load_effects_witness:
  "\<exists>sub.
     Logger_extend [(''LOG_LEVEL'', ''trace'')]
       \<lparr>window = False, document = False, navigator = None,
        process = Some [(''LOG_LEVEL'', ''trace'')]\<rparr>
       (Inr PrettyLogStream)
       (built [(''LOG_LEVEL'', ''trace'')] The_devConfig (Some PrettyLogStream) False ''app'')
       ''submodule'' = Inr sub
     \<and> name sub = ''app.submodule''
     \<and> module_load (\<lambda>a::unit list. Inr [])
         \<lparr>window = False, document = False, navigator = None,
          process = Some [(''LOG_LEVEL'', ''trace'')]\<rparr>
         (Inr PrettyLogStream) =
         (Inr (built [(''LOG_LEVEL'', ''trace'')] The_devConfig (Some PrettyLogStream) False ''app''),
          map Emitted
            (map (\<lambda>(l, m).
                    pino_record
                      (logger (built [(''LOG_LEVEL'', ''trace'')] The_devConfig
                         (Some PrettyLogStream) False ''app'')) l m [])
               module_calls
             @ [pino_record (logger sub) ''info''
                  ''This is an info message from a submodule'' []]))"
proof -
  let ?menv = "[(''LOG_LEVEL'', ''trace'')]"
  let ?amb = "\<lparr>window = False, document = False, navigator = None, process = Some ?menv\<rparr>"
  let ?lg = "built ?menv The_devConfig (Some PrettyLogStream) False ''app''"
  have p: "process ?amb = Some ?menv"
    by simp
  have n: "new Logger_class ?menv ?amb (Inr PrettyLogStream) ''app'' = Inr ?lg"
    by (simp add: new_Logger createLogger_config_def isRealBrowser_def)
  have en: "pino_isLevelEnabled (logger (built ?menv The_devConfig d w nm)) l
      = (l \<in> set (map fst LOG_LEVELS))" for d w nm l
    by (auto simp: pino_isLevelEnabled_def pino_threshold_def built_def config_of_def
        devConfig_def baseConfig_def js_in_def Object_keys_def LOG_LEVELS_def)
  have f: "filter (\<lambda>(l, m). pino_isLevelEnabled (logger ?lg) l) module_calls = module_calls"
    by (simp add: en module_calls_def LOG_LEVELS_def)
  obtain sub where s: "Logger_extend ?menv ?amb (Inr PrettyLogStream) ?lg ''submodule'' = Inr sub"
    and nm: "name sub = ''app.submodule''"
    and m: "module_load (\<lambda>a::unit list. Inr []) ?amb (Inr PrettyLogStream) =
       (Inr ?lg,
        map Emitted
          (map (\<lambda>(l, m). pino_record (logger ?lg) l m [])
             (filter (\<lambda>(l, m). pino_isLevelEnabled (logger ?lg) l) module_calls)
           @ (if pino_isLevelEnabled (logger sub) ''info''
              then [pino_record (logger sub) ''info''
                      ''This is an info message from a submodule'' []]
              else [])))"
    using module_load_effects [OF p n, of "\<lambda>a::unit list. Inr []"] by blast
  have sub: "sub = built ?menv The_devConfig (Some PrettyLogStream) False ''app.submodule''"
    using s by (simp add: Logger_extend_def new_Logger createLogger_config_def isRealBrowser_def
        built_def)
  have e2: "pino_isLevelEnabled (logger sub) ''info''"
    unfolding sub en by (simp add: LOG_LEVELS_def)
  show ?thesis
    using s nm m e2 by (simp add: f)
qed

text \<open>
  On a development server with \<^verbatim>\<open>LOG_LEVEL\<close> unset the threshold is \<open>details\<close>: importing
  the module writes seven records, none for \<open>debug\<close> and none for \<open>trace\<close>.
\<close>

theorem module_load_dev_default:
  "map rec_label (emitted (snd (module_load (\<lambda>a::unit list. Inr [])
       \<lparr>window = False, document = False, navigator = None, process = Some []\<rparr>
       (Inr PrettyLogStream))))
   = [''critical'', ''error'', ''warn'', ''log'', ''info'', ''details'', ''info'']"
  by (simp add: module_load_def new_Logger createLogger_config_def isRealBrowser_def built_def
      Logger_extend_def Logger_critical_effects Logger_error_def Logger_warn_def
      Logger_log_def Logger_info_def Logger_details_def Logger_debug_def Logger_trace_def
      pino_log_def pino_isLevelEnabled_def pino_threshold_def config_of_def devConfig_def
      baseConfig_def LOG_LEVELS_def pino_record_def Let_def)

end
